theory Spec2Isabelle
  imports Complex_Main
begin

section \<open>Arrays, labels and scenario parameters\<close>

text \<open>
  The notebooks compare three spectral embeddings on synthetic graphs. The numerical
  routines they call (SVD, the embedders, the mixture model, the neighbour graph, the
  Adjusted Rand Index) belong to external libraries; the notebooks' own code builds the
  inputs, dispatches on the method and loops over the trials. The final table of means
  is double-precision arithmetic inside the data-frame library and is not modelled.
  A two-dimensional NumPy array of floats is a row-major list of rows over \<open>real\<close>; the
  code modelled here never does arithmetic on the entries.
\<close>

type_synonym matrix = "real list list"

text \<open>
  The Python exceptions that the statements modelled here can raise: reading the named
  local variable before any statement has assigned it, unpacking a value into two names
  when it does not have exactly two items, and concatenating along an axis or with
  dimensions that the arrays do not have. The notebooks contain no \<^verbatim>\<open>raise\<close> statement.
\<close>

datatype error = UnboundLocalError string | ValueError string | AxisError string

text \<open>
  The value of an array variable of the runner: a two-dimensional array, or a
  one-dimensional one (a single row taken out of a two-dimensional array).
\<close>

datatype ndarray = Mat matrix | Vec "real list"

text \<open>
  What \<^verbatim>\<open>fit_transform\<close> of the adjacency and Laplacian embedders returns: the tuple of
  the row and column embeddings when the embedder takes the graph as directed, a single
  array when it takes it as undirected.
\<close>

datatype embedding = Tuple2 matrix matrix | Array matrix

text \<open>The 2x2 block matrix \<^verbatim>\<open>B = np.array([[a, b], [c, d]])\<close>, read as \<^verbatim>\<open>B[i, j]\<close>.\<close>

datatype block = Block real real real real

fun block_at :: "block \<Rightarrow> nat \<Rightarrow> nat \<Rightarrow> real" where
  "block_at (Block a b c d) i j =
     (if i = 0 then (if j = 0 then a else b) else (if j = 0 then c else d))"

text \<open>\<^verbatim>\<open>np.zeros((r, c))\<close>.\<close>

definition np_zeros :: "nat \<Rightarrow> nat \<Rightarrow> matrix" where
  "np_zeros r c = replicate r (replicate c 0)"

text \<open>
  \<^verbatim>\<open>M[r0:r1, c0:c1] = v\<close> with a scalar \<open>v\<close>: every entry whose row index lies in
  \<open>[r0, r1)\<close> and whose column index lies in \<open>[c0, c1)\<close> is overwritten; slice
  bounds beyond the shape select nothing there.
\<close>

definition assign_block :: "nat \<Rightarrow> nat \<Rightarrow> nat \<Rightarrow> nat \<Rightarrow> real \<Rightarrow> matrix \<Rightarrow> matrix" where
  "assign_block r0 r1 c0 c1 v M =
     map (\<lambda>(i, row).
            if r0 \<le> i \<and> i < r1
            then map (\<lambda>(j, x). if c0 \<le> j \<and> j < c1 then v else x) (enumerate 0 row)
            else row)
         (enumerate 0 M)"

text \<open>\<^verbatim>\<open>xs[a:b]\<close> for non-negative bounds.\<close>

definition slice :: "nat \<Rightarrow> nat \<Rightarrow> 'a list \<Rightarrow> 'a list" where
  "slice a b xs = take (b - a) (drop a xs)"

text \<open>\<^verbatim>\<open>M[r0:r1, c0:c1]\<close>.\<close>

definition slice2 :: "nat \<Rightarrow> nat \<Rightarrow> nat \<Rightarrow> nat \<Rightarrow> matrix \<Rightarrow> matrix" where
  "slice2 r0 r1 c0 c1 M = map (slice c0 c1) (slice r0 r1 M)"

text \<open>
  \<^verbatim>\<open>int(n/2)\<close> for a non-negative Python integer: true division followed by
  truncation, which is integer division by two.
\<close>

definition half :: "nat \<Rightarrow> nat" where
  "half n = n div 2"

text \<open>
  The probability matrix of the block-model scenario:
  \<^verbatim>\<open>
  P = np.zeros((n_verts, n_verts))
  P[0:int(n_verts/2),0:int(n_verts/2)] = B[0, 0]
  P[int(n_verts/2):n_verts, int(n_verts/2):n_verts] = B[1, 1]
  P[0:int(n_verts/2), int(n_verts/2):n_verts] = B[0, 1]
  P[int(n_verts/2):n_verts, 0:int(n_verts/2)] = B[1, 0]
  \<close>
\<close>

definition prob_matrix :: "nat \<Rightarrow> block \<Rightarrow> matrix" where
  "prob_matrix n_verts B =
     (let P0 = np_zeros n_verts n_verts;
          P1 = assign_block 0 (half n_verts) 0 (half n_verts) (block_at B 0 0) P0;
          P2 = assign_block (half n_verts) n_verts (half n_verts) n_verts (block_at B 1 1) P1;
          P3 = assign_block 0 (half n_verts) (half n_verts) n_verts (block_at B 0 1) P2;
          P4 = assign_block (half n_verts) n_verts 0 (half n_verts) (block_at B 1 0) P3
      in P4)"

text \<open>
  The ground-truth labels of a scenario with sample count \<open>n\<close>:
  \<^verbatim>\<open>labels = int(n/2) * [0] + int(n/2) * [1]\<close>.
\<close>

definition scenario_labels :: "nat \<Rightarrow> nat list" where
  "scenario_labels n = replicate (half n) 0 @ replicate (half n) 1"

text \<open>
  The neighbour count of the scenarios, \<^verbatim>\<open>n_neighbors=int(np.sqrt(n))\<close>: the square
  root truncated to an integer. The double-precision root is correctly rounded, so for
  every \<open>n\<close> that an array dimension can take the truncation is the integer square
  root, computed here by counting up.
\<close>

fun n_neighbors :: "nat \<Rightarrow> nat" where
  "n_neighbors 0 = 0"
| "n_neighbors (Suc n) =
     (let r = n_neighbors n in if (r + 1) * (r + 1) \<le> Suc n then r + 1 else r)"

section \<open>The world of a call\<close>

text \<open>
  What a call of \<^verbatim>\<open>calc_ari\<close> can reach outside its own frame: the objects passed to it by
  reference (the graph array \<^verbatim>\<open>kn_graph\<close> and the list \<^verbatim>\<open>labels_true\<close> of the build-once
  variant, the block matrix \<^verbatim>\<open>B\<close> and \<^verbatim>\<open>labels_true\<close> of the regenerating variant), the
  process-wide random generator, and the number of updates written to the progress bar.
  The other arguments are immutable numbers and strings.
\<close>

record 'r world =
  kn_graph :: matrix
  labels_true :: "nat list"
  B_arg :: block
  rng :: 'r
  progress :: nat

section \<open>The external collaborators\<close>

text \<open>
  The library routines the notebooks call, taken as parameters; each field is named after
  the call it stands for, and a constructor followed by \<^verbatim>\<open>fit_transform\<close> or
  \<^verbatim>\<open>fit_predict\<close> is one field that takes the constructor's arguments first. A run in
  which a routine raises is aborted by that exception and is not a value of these fields.

  The routines of the scenario construction are functions of their arguments, except
  that \<open>multivariate_normal\<close> draws from the random generator, whose state \<open>'r\<close> it
  takes and returns:
  \<^item> \<open>linalg_svd P\<close> is \<^verbatim>\<open>np.linalg.svd(P)\<close>, returning \<open>(U, S, V)\<close>;
  \<^item> \<open>matmul X D\<close> is \<^verbatim>\<open>X @ D\<close>, \<open>np_sqrt\<close> and \<open>np_diag\<close> are the NumPy functions;
  \<^item> \<open>kneighbors_graph L k\<close> is \<^verbatim>\<open>kneighbors_graph(L, n_neighbors=k).toarray()\<close>;
  \<^item> \<open>multivariate_normal m c k\<close> is \<^verbatim>\<open>np.random.multivariate_normal(mean=m, cov=c, size=k)\<close>.

  The routines a trial calls run on the world of the call: they may draw from the random
  generator, and they are handed the caller's objects by reference, so whatever they do
  to the world is part of what they return:
  \<^item> \<open>AdjacencySpectralEmbed d g\<close> is \<^verbatim>\<open>AdjacencySpectralEmbed(n_components=d).fit_transform(g)\<close>,
    and likewise \<open>LaplacianSpectralEmbed\<close>;
  \<^item> \<open>spectral_embedding g d\<close> is \<^verbatim>\<open>spectral_embedding(g, n_components=d)\<close>;
  \<^item> \<open>GaussianMixture k c X\<close> is \<^verbatim>\<open>GaussianMixture(n_components=k, covariance_type=c).fit_predict(X)\<close>;
  \<^item> \<open>GaussianMixtureIC a b c X\<close> is
    \<^verbatim>\<open>GaussianMixtureIC(min_components=a, max_components=b, covariance_type=c).fit_predict(X)\<close>;
  \<^item> \<open>adjusted_rand_score t p\<close> is the score of the predicted labels \<open>p\<close> against \<open>t\<close>.
\<close>

record 'r library =
  linalg_svd :: "matrix \<Rightarrow> matrix \<times> real list \<times> matrix"
  np_diag :: "real list \<Rightarrow> matrix"
  np_sqrt :: "matrix \<Rightarrow> matrix"
  matmul :: "matrix \<Rightarrow> matrix \<Rightarrow> matrix"
  kneighbors_graph :: "matrix \<Rightarrow> nat \<Rightarrow> matrix"
  multivariate_normal :: "real list \<Rightarrow> matrix \<Rightarrow> nat \<Rightarrow> 'r \<Rightarrow> matrix \<times> 'r"
  AdjacencySpectralEmbed :: "nat \<Rightarrow> matrix \<Rightarrow> 'r world \<Rightarrow> embedding \<times> 'r world"
  LaplacianSpectralEmbed :: "nat \<Rightarrow> matrix \<Rightarrow> 'r world \<Rightarrow> embedding \<times> 'r world"
  spectral_embedding :: "matrix \<Rightarrow> nat \<Rightarrow> 'r world \<Rightarrow> matrix \<times> 'r world"
  GaussianMixture :: "nat \<Rightarrow> string \<Rightarrow> ndarray \<Rightarrow> 'r world \<Rightarrow> nat list \<times> 'r world"
  GaussianMixtureIC :: "nat \<Rightarrow> nat \<Rightarrow> string \<Rightarrow> ndarray \<Rightarrow> 'r world \<Rightarrow> nat list \<times> 'r world"
  adjusted_rand_score :: "nat list \<Rightarrow> nat list \<Rightarrow> 'r world \<Rightarrow> real \<times> 'r world"

section \<open>Scenario construction\<close>

text \<open>
  \<^verbatim>\<open>np.concatenate((X, Y), axis=0)\<close> stacks the rows of \<open>Y\<close> under those of \<open>X\<close>, and
  \<^verbatim>\<open>np.concatenate((X, Y), axis=1)\<close> puts row \<open>i\<close> of \<open>Y\<close> to the right of row \<open>i\<close> of
  \<open>X\<close>. NumPy requires the other dimension of the two arrays to agree; the notebooks
  only concatenate the two halves of one factorisation or the two embeddings of one graph.
\<close>

definition concatenate_axis0 :: "matrix \<Rightarrow> matrix \<Rightarrow> matrix" where
  "concatenate_axis0 X Y = X @ Y"

definition concatenate_axis1 :: "matrix \<Rightarrow> matrix \<Rightarrow> matrix" where
  "concatenate_axis1 X Y = map2 (@) X Y"

text \<open>\<^verbatim>\<open>np.eye(2)\<close>.\<close>

definition np_eye2 :: matrix where
  "np_eye2 = [[1, 0], [0, 1]]"

text \<open>
  The latent positions of the block-model scenario:
  \<^verbatim>\<open>
  U, S, V = np.linalg.svd(P)
  X = U[0:int(n_verts/2), 0:2] @ np.sqrt(np.diag(S[0:2]))
  Y = V.T[int(n_verts/2):n_verts, 0:2] @ np.sqrt(np.diag(S[0:2]))
  lat_mat = np.concatenate((X, Y), axis=0)
  \<close>
\<close>

definition lat_mat :: "'r library \<Rightarrow> nat \<Rightarrow> block \<Rightarrow> matrix" where
  "lat_mat lib n_verts B =
     (let P = prob_matrix n_verts B in
      case linalg_svd lib P of (U, S, V) \<Rightarrow>
        let X = matmul lib (slice2 0 (half n_verts) 0 2 U)
                  (np_sqrt lib (np_diag lib (slice 0 2 S)));
            Y = matmul lib (slice2 (half n_verts) n_verts 0 2 (transpose V))
                  (np_sqrt lib (np_diag lib (slice 0 2 S)))
        in concatenate_axis0 X Y)"

text \<open>
  \<^verbatim>\<open>kn_graph = kneighbors_graph(lat_mat, n_neighbors=int(np.sqrt(n_verts)))\<close> followed by
  \<^verbatim>\<open>kn_graph = kn_graph.toarray()\<close>, for the block-model scenario.
\<close>

definition block_kn_graph :: "'r library \<Rightarrow> nat \<Rightarrow> block \<Rightarrow> matrix" where
  "block_kn_graph lib n_verts B =
     kneighbors_graph lib (lat_mat lib n_verts B) (n_neighbors n_verts)"

text \<open>
  The Gaussian-mixture scenario: two samples of \<^verbatim>\<open>int(n_vectors/2)\<close> points each, drawn
  one after the other, stacked, and the same neighbour graph over them.
  \<^verbatim>\<open>
  X = np.random.multivariate_normal(mean = mean_1, cov = np.eye(2), size = int(n_vectors/2))
  Y = np.random.multivariate_normal(mean = mean_2, cov = np.eye(2), size = int(n_vectors/2))
  lat_mat = np.concatenate((X, Y), axis=0)
  \<close>
\<close>

definition gaussian_lat_mat ::
    "'r library \<Rightarrow> nat \<Rightarrow> real list \<Rightarrow> real list \<Rightarrow> 'r \<Rightarrow> matrix \<times> 'r" where
  "gaussian_lat_mat lib n_vectors mean_1 mean_2 r =
     (case multivariate_normal lib mean_1 np_eye2 (half n_vectors) r of (X, r1) \<Rightarrow>
      case multivariate_normal lib mean_2 np_eye2 (half n_vectors) r1 of (Y, r2) \<Rightarrow>
        (concatenate_axis0 X Y, r2))"

definition gaussian_kn_graph ::
    "'r library \<Rightarrow> nat \<Rightarrow> real list \<Rightarrow> real list \<Rightarrow> 'r \<Rightarrow> matrix \<times> 'r" where
  "gaussian_kn_graph lib n_vectors mean_1 mean_2 r =
     (case gaussian_lat_mat lib n_vectors mean_1 mean_2 r of (L, r') \<Rightarrow>
        (kneighbors_graph lib L (n_neighbors n_vectors), r'))"

section \<open>The trial runner\<close>

text \<open>
  A trial record \<^verbatim>\<open>{"test": embed_method, "ari": ari}\<close>; the data frame built from the
  list of records keeps their order.
\<close>

record row =
  test :: string
  ari :: real

text \<open>
  The local variables of \<^verbatim>\<open>calc_ari\<close> that live across the iterations of its loop. A
  local that no statement has assigned yet is \<open>None\<close>; reading it raises
  \<^verbatim>\<open>UnboundLocalError\<close>.
\<close>

record locals =
  rows :: "row list"
  Xhat :: "ndarray option"
  Yhat :: "ndarray option"

text \<open>
  The assignment \<^verbatim>\<open>Xhat, Yhat = value\<close>. A tuple of two arrays gives one to each name.
  A single array is iterated along its first axis: with exactly two rows each name gets
  one row, with any other number of rows the assignment raises \<^verbatim>\<open>ValueError\<close>.
\<close>

fun unpack2 :: "embedding \<Rightarrow> error + ndarray \<times> ndarray" where
  "unpack2 (Tuple2 X Y) = Inr (Mat X, Mat Y)"
| "unpack2 (Array A) =
     (case A of
        [x, y] \<Rightarrow> Inr (Vec x, Vec y)
      | _ \<Rightarrow> Inl (ValueError ''unpack''))"

text \<open>
  The dispatch on the method (no \<^verbatim>\<open>else\<close> branch: any other string assigns nothing):
  \<^verbatim>\<open>
  if embed_method == "ase":
      ase = AdjacencySpectralEmbed(n_components=2)
      Xhat, Yhat = ase.fit_transform(kn_graph)
  elif embed_method == "lse":
      lse = LaplacianSpectralEmbed(n_components=2)
      Xhat, Yhat = lse.fit_transform(kn_graph)
  elif embed_method == "sklearn":
      Xhat = spectral_embedding(kn_graph, n_components=2)
  \<close>
\<close>

definition choose_embedding ::
    "'r library \<Rightarrow> matrix \<Rightarrow> string \<Rightarrow> locals \<Rightarrow> 'r world \<Rightarrow> (error + locals) \<times> 'r world" where
  "choose_embedding lib g embed_method l w =
     (if embed_method = ''ase'' then
        (case AdjacencySpectralEmbed lib 2 g w of
           (v, w') \<Rightarrow>
             (case unpack2 v of
                Inl e \<Rightarrow> (Inl e, w')
              | Inr (x, y) \<Rightarrow> (Inr (l\<lparr>Xhat := Some x, Yhat := Some y\<rparr>), w')))
      else if embed_method = ''lse'' then
        (case LaplacianSpectralEmbed lib 2 g w of
           (v, w') \<Rightarrow>
             (case unpack2 v of
                Inl e \<Rightarrow> (Inl e, w')
              | Inr (x, y) \<Rightarrow> (Inr (l\<lparr>Xhat := Some x, Yhat := Some y\<rparr>), w')))
      else if embed_method = ''sklearn'' then
        (case spectral_embedding lib g 2 w of
           (X, w') \<Rightarrow> (Inr (l\<lparr>Xhat := Some (Mat X)\<rparr>), w'))
      else (Inr l, w))"

text \<open>
  \<^verbatim>\<open>np.concatenate((a, b), axis=1)\<close> on the values of two array variables. Two
  two-dimensional arrays are put side by side. A one-dimensional first array has no
  axis 1, and a one-dimensional second array does not have the dimensions of the first.
\<close>

fun np_concatenate_axis1 :: "ndarray \<Rightarrow> ndarray \<Rightarrow> error + ndarray" where
  "np_concatenate_axis1 (Mat X) (Mat Y) = Inr (Mat (concatenate_axis1 X Y))"
| "np_concatenate_axis1 (Vec x) b = Inl (AxisError ''axis 1'')"
| "np_concatenate_axis1 (Mat X) (Vec y) = Inl (ValueError ''dimensions'')"

text \<open>
  \<^verbatim>\<open>
  if embed_method == "ase" or embed_method == "lse":
      Xhat = np.concatenate((Xhat, Yhat), axis=1)
  \<close>
\<close>

definition concatenate_embedding :: "string \<Rightarrow> locals \<Rightarrow> error + locals" where
  "concatenate_embedding embed_method l =
     (if embed_method = ''ase'' \<or> embed_method = ''lse'' then
        (case Xhat l of
           None \<Rightarrow> Inl (UnboundLocalError ''Xhat'')
         | Some a \<Rightarrow>
            (case Yhat l of
               None \<Rightarrow> Inl (UnboundLocalError ''Yhat'')
             | Some b \<Rightarrow>
                (case np_concatenate_axis1 a b of
                   Inl e \<Rightarrow> Inl e
                 | Inr c \<Rightarrow> Inr (l\<lparr>Xhat := Some c\<rparr>))))
      else Inr l)"

text \<open>
  Clustering, scoring and recording; \<open>cluster\<close> is the mixture model the variant
  constructs (the constructor only stores its arguments) with its \<^verbatim>\<open>fit_predict\<close>:
  \<^verbatim>\<open>
  labels_mclust = gm_ic.fit_predict(Xhat)
  ari = adjusted_rand_score(labels_true, labels_mclust)
  result = {"test": embed_method, "ari": ari}
  rows.append(result)
  \<close>
\<close>

definition cluster_and_score ::
    "'r library \<Rightarrow> (ndarray \<Rightarrow> 'r world \<Rightarrow> nat list \<times> 'r world) \<Rightarrow> string \<Rightarrow> locals \<Rightarrow> 'r world
       \<Rightarrow> (error + locals) \<times> 'r world" where
  "cluster_and_score lib cluster embed_method l w =
     (case Xhat l of
        None \<Rightarrow> (Inl (UnboundLocalError ''Xhat''), w)
      | Some a \<Rightarrow>
         (case cluster a w of
            (labels_mclust, w1) \<Rightarrow>
              (case adjusted_rand_score lib (labels_true w1) labels_mclust w1 of
                 (score, w2) \<Rightarrow>
                   (Inr (l\<lparr>rows := rows l @ [\<lparr>test = embed_method, ari = score\<rparr>]\<rparr>), w2))))"

text \<open>One iteration of the loop on the graph \<open>g\<close>: embed, concatenate, cluster, score.\<close>

definition trial ::
    "'r library \<Rightarrow> (ndarray \<Rightarrow> 'r world \<Rightarrow> nat list \<times> 'r world) \<Rightarrow> matrix \<Rightarrow> string \<Rightarrow> locals
       \<Rightarrow> 'r world \<Rightarrow> (error + locals) \<times> 'r world" where
  "trial lib cluster g embed_method l w =
     (case choose_embedding lib g embed_method l w of
        (Inl e, w1) \<Rightarrow> (Inl e, w1)
      | (Inr l1, w1) \<Rightarrow>
          (case concatenate_embedding embed_method l1 of
             Inl e \<Rightarrow> (Inl e, w1)
           | Inr l2 \<Rightarrow> cluster_and_score lib cluster embed_method l2 w1))"

text \<open>
  \<^verbatim>\<open>for _ in range(n_sims): body\<close>: the body runs \<open>n_sims\<close> times on the locals and the
  world the previous iteration left; an exception ends the loop and the call.
\<close>

fun for_range ::
    "nat \<Rightarrow> (locals \<Rightarrow> 'w \<Rightarrow> (error + locals) \<times> 'w) \<Rightarrow> locals \<Rightarrow> 'w \<Rightarrow> (error + locals) \<times> 'w" where
  "for_range 0 body l w = (Inr l, w)"
| "for_range (Suc k) body l w =
     (case body l w of
        (Inl e, w') \<Rightarrow> (Inl e, w')
      | (Inr l', w') \<Rightarrow> for_range k body l' w')"

text \<open>
  \<^verbatim>\<open>for _ in tqdm(range(n_sims), ...)\<close>: the progress bar counts an iteration once its
  body has finished; the notebook that uses it relies on \<^verbatim>\<open>tqdm\<close> being the progress
  iterator in the running kernel.
\<close>

definition tqdm ::
    "(locals \<Rightarrow> 'r world \<Rightarrow> (error + locals) \<times> 'r world)
       \<Rightarrow> locals \<Rightarrow> 'r world \<Rightarrow> (error + locals) \<times> 'r world" where
  "tqdm body l w =
     (case body l w of
        (Inl e, w') \<Rightarrow> (Inl e, w')
      | (Inr l', w') \<Rightarrow> (Inr l', w'\<lparr>progress := progress w' + 1\<rparr>))"

text \<open>\<^verbatim>\<open>rows = []\<close> with \<^verbatim>\<open>Xhat\<close> and \<^verbatim>\<open>Yhat\<close> not yet assigned.\<close>

definition entry_locals :: locals where
  "entry_locals = \<lparr>rows = [], Xhat = None, Yhat = None\<rparr>"

text \<open>\<^verbatim>\<open>results = pd.DataFrame(rows); return results\<close>.\<close>

definition return_results ::
    "(error + locals) \<times> 'w \<Rightarrow> (error + row list) \<times> 'w" where
  "return_results out =
     (case out of (Inl e, w') \<Rightarrow> (Inl e, w') | (Inr l, w') \<Rightarrow> (Inr (rows l), w'))"

text \<open>
  \<^verbatim>\<open>calc_ari(kn_graph, n_sims, embed_method, labels_true, cov_type)\<close> of the notebooks that
  build the graph once: every trial embeds the caller's graph and clusters with
  \<^verbatim>\<open>GaussianMixture(n_components=2, covariance_type=cov_type)\<close>.
\<close>

definition calc_ari ::
    "'r library \<Rightarrow> nat \<Rightarrow> string \<Rightarrow> string \<Rightarrow> 'r world \<Rightarrow> (error + row list) \<times> 'r world" where
  "calc_ari lib n_sims embed_method cov_type w =
     return_results
       (for_range n_sims
          (\<lambda>l w. trial lib (GaussianMixture lib 2 cov_type) (kn_graph w) embed_method l w)
          entry_locals w)"

text \<open>
  \<^verbatim>\<open>calc_ari(n_verts, n_sims, B, embed_method, labels_true)\<close> of the notebook that rebuilds
  the block-model graph from the caller's \<^verbatim>\<open>B\<close> inside every trial, shows a progress bar
  and clusters with
  \<^verbatim>\<open>GaussianMixtureIC(min_components=2, max_components=2, covariance_type="all")\<close>. The
  graph is a local of this variant.
\<close>

definition calc_ari_regen ::
    "'r library \<Rightarrow> nat \<Rightarrow> nat \<Rightarrow> string \<Rightarrow> 'r world \<Rightarrow> (error + row list) \<times> 'r world" where
  "calc_ari_regen lib n_verts n_sims embed_method w =
     return_results
       (for_range n_sims
          (tqdm (\<lambda>l w. trial lib (GaussianMixtureIC lib 2 2 ''all'')
                          (block_kn_graph lib n_verts (B_arg w)) embed_method l w))
          entry_locals w)"

section \<open>The runner as the specification words it\<close>

text \<open>
  The specification describes a trial as: obtain the similarity structure, apply the
  selected method to obtain one or two coordinate matrices, put a pair side by side, fit
  the mixture model and predict a label per sample, score the prediction against the
  ground truth, record (method, score). Its contract for the two asymmetric embedders is
  a pair of matrices; where an embedder returns anything else the specification gives
  the trial no result. \<open>spec_embed\<close> is the embedding step, \<open>spec_trial\<close> one trial,
  and \<open>spec_trial_records\<close> the ordered collection of the records of \<open>k\<close> trials,
  first trial first; \<open>G\<close> says how a trial obtains its graph and \<open>tick\<close> what the
  progress indicator does after a trial.
\<close>

definition spec_embed ::
    "'r library \<Rightarrow> matrix \<Rightarrow> string \<Rightarrow> 'r world \<Rightarrow> matrix option \<times> 'r world" where
  "spec_embed lib g m w =
     (if m = ''sklearn'' then
        (case spectral_embedding lib g 2 w of (X, w1) \<Rightarrow> (Some X, w1))
      else
        (case (if m = ''ase'' then AdjacencySpectralEmbed lib 2 g w
               else LaplacianSpectralEmbed lib 2 g w) of
           (Tuple2 X Y, w1) \<Rightarrow> (Some (concatenate_axis1 X Y), w1)
         | (Array A, w1) \<Rightarrow> (None, w1)))"

definition spec_trial ::
    "'r library \<Rightarrow> (ndarray \<Rightarrow> 'r world \<Rightarrow> nat list \<times> 'r world) \<Rightarrow> matrix \<Rightarrow> string \<Rightarrow> 'r world
       \<Rightarrow> row option \<times> 'r world" where
  "spec_trial lib cluster g m w =
     (case spec_embed lib g m w of
        (None, w1) \<Rightarrow> (None, w1)
      | (Some C, w1) \<Rightarrow>
          (case cluster (Mat C) w1 of
             (predicted, w2) \<Rightarrow>
               (case adjusted_rand_score lib (labels_true w2) predicted w2 of
                  (score, w3) \<Rightarrow> (Some \<lparr>test = m, ari = score\<rparr>, w3))))"

fun spec_trial_records ::
    "'r library \<Rightarrow> (ndarray \<Rightarrow> 'r world \<Rightarrow> nat list \<times> 'r world) \<Rightarrow> ('r world \<Rightarrow> matrix)
       \<Rightarrow> ('r world \<Rightarrow> 'r world) \<Rightarrow> string \<Rightarrow> nat \<Rightarrow> 'r world \<Rightarrow> row list option \<times> 'r world" where
  "spec_trial_records lib cluster G tick m 0 w = (Some [], w)"
| "spec_trial_records lib cluster G tick m (Suc k) w =
     (case spec_trial lib cluster (G w) m w of
        (None, w1) \<Rightarrow> (None, w1)
      | (Some record, w1) \<Rightarrow>
          (case spec_trial_records lib cluster G tick m k (tick w1) of
             (None, w') \<Rightarrow> (None, w')
           | (Some rest, w') \<Rightarrow> (Some (record # rest), w')))"

text \<open>The progress indicator of the regenerating variant: one more update.\<close>

definition progress_tick :: "'r world \<Rightarrow> 'r world" where
  "progress_tick w = w\<lparr>progress := progress w + 1\<rparr>"

text \<open>
  The group the specification gives sample \<open>i\<close> among \<open>n\<close>: \<open>0\<close> below
  \<open>floor(n/2)\<close>, \<open>1\<close> from there on.
\<close>

definition group_of :: "nat \<Rightarrow> nat \<Rightarrow> nat" where
  "group_of n i = (if i < half n then 0 else 1)"

text \<open>
  A library call that leaves the caller's objects and the progress output as they were:
  the world it returns differs from the one it was given in the random generator at most.
\<close>

definition keeps_world :: "('r world \<Rightarrow> 'a \<times> 'r world) \<Rightarrow> bool" where
  "keeps_world f = (\<forall>w. snd (f w) = w\<lparr>rng := rng (snd (f w))\<rparr>)"

definition library_keeps_world :: "'r library \<Rightarrow> bool" where
  "library_keeps_world lib =
     ((\<forall>d g. keeps_world (AdjacencySpectralEmbed lib d g)) \<and>
      (\<forall>d g. keeps_world (LaplacianSpectralEmbed lib d g)) \<and>
      (\<forall>d g. keeps_world (spectral_embedding lib g d)) \<and>
      (\<forall>k c a. keeps_world (GaussianMixture lib k c a)) \<and>
      (\<forall>k1 k2 c a. keeps_world (GaussianMixtureIC lib k1 k2 c a)) \<and>
      (\<forall>t p. keeps_world (adjusted_rand_score lib t p)))"

section \<open>A small instance of the collaborators\<close>

text \<open>
  Stand-ins for the library routines on which the theorems below are run at concrete
  inputs. The generator state is a counter. An embedding of a graph is its rows cut or
  padded to the requested width; like the real embedders, the adjacency and Laplacian
  stand-ins return a pair for a graph that is not symmetric and a single array for a
  symmetric one. The mixture model labels a row by its first entry shifted by the
  generator state, and the score is \<open>1\<close> for equal label lists and \<open>0\<close> otherwise.
\<close>

definition stub_embed :: "nat \<Rightarrow> matrix \<Rightarrow> matrix" where
  "stub_embed d g = map (\<lambda>row. take d (row @ replicate d 0)) g"

definition stub_fit_transform :: "nat \<Rightarrow> matrix \<Rightarrow> nat world \<Rightarrow> embedding \<times> nat world" where
  "stub_fit_transform d g w =
     (if transpose g = g then Array (stub_embed d g)
      else Tuple2 (stub_embed d g) (stub_embed d g),
      w\<lparr>rng := rng w + 1\<rparr>)"

definition stub_label :: "nat \<Rightarrow> nat \<Rightarrow> real list \<Rightarrow> nat" where
  "stub_label k r row = (case row of [] \<Rightarrow> r mod k | x # _ \<Rightarrow> (nat \<lfloor>x\<rfloor> + r) mod k)"

definition stub_fit_predict :: "nat \<Rightarrow> ndarray \<Rightarrow> nat world \<Rightarrow> nat list \<times> nat world" where
  "stub_fit_predict k a w =
     (case a of
        Mat X \<Rightarrow> map (stub_label k (rng w)) X
      | Vec x \<Rightarrow> [],
      w\<lparr>rng := rng w + 2\<rparr>)"

definition stub_library :: "nat library" where
  "stub_library =
     \<lparr>linalg_svd = (\<lambda>P. (P, map (\<lambda>_. 1) P, P)),
      np_diag = (\<lambda>S. map (\<lambda>s. [s]) S),
      np_sqrt = (\<lambda>M. M),
      matmul = (\<lambda>X D. X),
      kneighbors_graph = (\<lambda>L k. map (\<lambda>_. map (\<lambda>_. 1) L) L),
      multivariate_normal = (\<lambda>m c k r. (replicate k m, r + 1)),
      AdjacencySpectralEmbed = stub_fit_transform,
      LaplacianSpectralEmbed = stub_fit_transform,
      spectral_embedding = (\<lambda>g d w. (stub_embed d g, w\<lparr>rng := rng w + 1\<rparr>)),
      GaussianMixture = (\<lambda>k c. stub_fit_predict k),
      GaussianMixtureIC = (\<lambda>k1 k2 c. stub_fit_predict k1),
      adjusted_rand_score = (\<lambda>t p w. (if t = p then 1 else 0, w))\<rparr>"

text \<open>The core-periphery block matrix of the notebooks.\<close>

definition B_core :: block where
  "B_core = Block (11/1000) (27/1000) (27/1000) (79/1000)"

text \<open>
  A world whose graph is directed (vertex 2 points to vertex 1 and not back), and one
  whose graph is the symmetric triangle.
\<close>

definition stub_world :: "nat world" where
  "stub_world =
     \<lparr>kn_graph = [[0, 1, 0], [1, 0, 0], [0, 1, 0]], labels_true = [0, 1, 0],
      B_arg = B_core, rng = 0, progress = 0\<rparr>"

definition symmetric_world :: "nat world" where
  "symmetric_world =
     \<lparr>kn_graph = [[0, 1, 1], [1, 0, 1], [1, 1, 0]], labels_true = [0, 1, 0],
      B_arg = B_core, rng = 0, progress = 0\<rparr>"

text \<open>
  A library whose generic embedding overwrites the graph array it is handed, as a routine
  that works in place on its argument would.
\<close>

definition in_place_library :: "nat library" where
  "in_place_library =
     stub_library\<lparr>spectral_embedding :=
       (\<lambda>g d w. (stub_embed d g, w\<lparr>kn_graph := map (map (\<lambda>_. 0)) g, rng := rng w + 1\<rparr>))\<rparr>"

section \<open>Array lemmas\<close>

lemma length_assign_block [simp]: "length (assign_block r0 r1 c0 c1 v M) = length M"
  by (simp add: assign_block_def)

lemma length_row_assign_block [simp]:
  "i < length M \<Longrightarrow> length (assign_block r0 r1 c0 c1 v M ! i) = length (M ! i)"
  by (simp add: assign_block_def nth_enumerate_eq)

lemma nth_assign_block:
  "i < length M \<Longrightarrow> j < length (M ! i) \<Longrightarrow>
   assign_block r0 r1 c0 c1 v M ! i ! j =
     (if r0 \<le> i \<and> i < r1 \<and> c0 \<le> j \<and> j < c1 then v else M ! i ! j)"
  by (simp add: assign_block_def nth_enumerate_eq)

lemma np_zeros_shape [simp]:
  "length (np_zeros r c) = r" "i < r \<Longrightarrow> length (np_zeros r c ! i) = c"
  by (simp_all add: np_zeros_def)

lemma length_prob_matrix [simp]: "length (prob_matrix n B) = n"
  by (simp add: prob_matrix_def Let_def)

lemma n_neighbors_bounds: "n_neighbors n * n_neighbors n \<le> n \<and> n < (n_neighbors n + 1) * (n_neighbors n + 1)"
  by (induction n) (auto simp: Let_def)

lemma n_neighbors_floor: "n_neighbors n = nat \<lfloor>sqrt (real n)\<rfloor>"
proof -
  let ?r = "n_neighbors n"
  have lo: "real ?r \<le> sqrt (real n)"
  proof (rule real_le_rsqrt)
    have "?r * ?r \<le> n" using n_neighbors_bounds by blast
    then have "real (?r * ?r) \<le> real n" by (rule iffD2 [OF of_nat_le_iff])
    then show "(real ?r)\<^sup>2 \<le> real n" by (simp add: power2_eq_square)
  qed
  have hi: "sqrt (real n) < real ?r + 1"
  proof (rule real_less_lsqrt)
    show "0 \<le> real ?r + 1" by simp
    have "n < (?r + 1) * (?r + 1)" using n_neighbors_bounds by blast
    then have "real n < real ((?r + 1) * (?r + 1))" by (rule iffD2 [OF of_nat_less_iff])
    then show "real n < (real ?r + 1)\<^sup>2" by (simp add: power2_eq_square algebra_simps)
  qed
  have "\<lfloor>sqrt (real n)\<rfloor> = int ?r"
    using lo hi by (intro floor_unique) simp_all
  then show ?thesis by simp
qed

lemma np_zeros_nth: "i < r \<Longrightarrow> j < c \<Longrightarrow> np_zeros r c ! i ! j = 0"
  by (simp add: np_zeros_def)

lemma prob_matrix_nth:
  assumes "i < n" "j < n"
  shows "prob_matrix n B ! i ! j =
     (if i < half n then (if j < half n then block_at B 0 0 else block_at B 0 1)
      else (if j < half n then block_at B 1 0 else block_at B 1 1))"
proof -
  define P0 where "P0 = np_zeros n n"
  define P1 where "P1 = assign_block 0 (half n) 0 (half n) (block_at B 0 0) P0"
  define P2 where "P2 = assign_block (half n) n (half n) n (block_at B 1 1) P1"
  define P3 where "P3 = assign_block 0 (half n) (half n) n (block_at B 0 1) P2"
  define P4 where "P4 = assign_block (half n) n 0 (half n) (block_at B 1 0) P3"
  have P: "prob_matrix n B = P4"
    by (simp add: prob_matrix_def Let_def P0_def P1_def P2_def P3_def P4_def)
  have s0: "length P0 = n" "length (P0 ! i) = n" "P0 ! i ! j = 0"
    using assms by (simp_all add: P0_def np_zeros_nth)
  have s1: "length P1 = n" "length (P1 ! i) = n"
    "P1 ! i ! j = (if i < half n \<and> j < half n then block_at B 0 0 else 0)"
    using assms s0 by (simp_all add: P1_def nth_assign_block)
  have s2: "length P2 = n" "length (P2 ! i) = n"
    "P2 ! i ! j = (if half n \<le> i \<and> half n \<le> j then block_at B 1 1 else P1 ! i ! j)"
    using assms s1(1,2) by (simp_all add: P2_def nth_assign_block)
  have s3: "length P3 = n" "length (P3 ! i) = n"
    "P3 ! i ! j = (if i < half n \<and> half n \<le> j then block_at B 0 1 else P2 ! i ! j)"
    using assms s2(1,2) by (simp_all add: P3_def nth_assign_block)
  have s4: "P4 ! i ! j = (if half n \<le> i \<and> j < half n then block_at B 1 0 else P3 ! i ! j)"
    using assms s3(1,2) by (simp add: P4_def nth_assign_block)
  show ?thesis
    unfolding P s4 s3(3) s2(3) s1(3) by (simp add: not_less)
qed

section \<open>The probability matrix\<close>

text \<open>
  Claim C7. In the block-model construction with \<open>n\<close> vertices and block matrix \<open>B\<close>,
  the entry of the probability matrix at row \<open>i\<close> and column \<open>j\<close> (both below \<open>n\<close>) is
  the block value \<open>B[g(i)][g(j)]\<close>, where \<open>g\<close> is \<open>0\<close> on the indices below
  \<open>floor(n/2)\<close> and \<open>1\<close> on the others.
\<close>

theorem prob_matrix_quadrants:
  "i < n \<Longrightarrow> j < n \<Longrightarrow> prob_matrix n B ! i ! j = block_at B (group_of n i) (group_of n j)"
  by (simp add: prob_matrix_nth group_of_def)

theorem prob_matrix_quadrants_witness:
  "(2::nat) < 5 \<and> (1::nat) < 5 \<and> prob_matrix 5 (Block 1 2 3 4) ! 2 ! 1 = 3"
  using prob_matrix_quadrants [of 2 5 1 "Block 1 2 3 4"] by (simp add: group_of_def half_def)

section \<open>The ground-truth labels\<close>

lemma length_scenario_labels: "length (scenario_labels n) = 2 * (n div 2)"
  by (simp add: scenario_labels_def half_def)

lemma scenario_labels_nth:
  "i < 2 * (n div 2) \<Longrightarrow> scenario_labels n ! i = group_of n i"
  by (simp add: scenario_labels_def half_def group_of_def nth_append)

text \<open>
  Claim C3 says that for every sample count \<open>n \<ge> 1\<close> the label list has length \<open>n\<close>,
  group \<open>0\<close> first and group \<open>1\<close> second. The list has \<open>floor(n/2)\<close> entries of each
  group, so for an odd count it is one short: with three vertices the probability matrix
  of the block-model scenario has three rows and the label list two entries.
\<close>

theorem scenario_labels_odd_count:
  "scenario_labels 3 = [0, 1] \<and> length (scenario_labels 3) = 2
   \<and> length (prob_matrix 3 B_core) = 3"
  by (simp add: scenario_labels_def half_def)

section \<open>The neighbour count\<close>

lemma n_neighbors_250: "n_neighbors 250 = 15"
  by code_simp

lemma round_sqrt_250: "round (sqrt 250) = 16"
  unfolding round_def
proof (rule floor_unique)
  have "(31/2)\<^sup>2 \<le> (250::real)" by (simp add: power2_eq_square)
  then have "31/2 \<le> sqrt 250" by (rule real_le_rsqrt)
  then show "of_int 16 \<le> sqrt 250 + 1/2" by simp
  have "sqrt 250 < 33/2" by (rule real_less_lsqrt) (simp_all add: power2_eq_square)
  then show "sqrt 250 + 1/2 < of_int 16 + 1" by simp
qed

text \<open>
  Claim C2 says that the neighbour count is \<open>round(sqrt(n))\<close>. The notebooks truncate:
  for the 250 points of the first Gaussian-mixture scenario the count is 15, while the
  root, about 15.8, rounds to 16.
\<close>

theorem neighbor_count_round_counterexample:
  "n_neighbors 250 \<noteq> nat (round (sqrt (real (250::nat))))"
  by (simp add: n_neighbors_250 round_sqrt_250)

text \<open>
  Claim C2, amended. In the block-model construction and in the Gaussian-mixture
  construction the neighbour count passed to the neighbour-graph builder is the square
  root of the sample count rounded down, \<open>floor(sqrt(n))\<close>.
\<close>

theorem neighbor_count_floor_sqrt:
  "block_kn_graph lib n B =
     kneighbors_graph lib (lat_mat lib n B) (nat \<lfloor>sqrt (real n)\<rfloor>)
   \<and> gaussian_kn_graph lib n mean_1 mean_2 r =
     (kneighbors_graph lib (fst (gaussian_lat_mat lib n mean_1 mean_2 r))
        (nat \<lfloor>sqrt (real n)\<rfloor>),
      snd (gaussian_lat_mat lib n mean_1 mean_2 r))"
  by (simp add: block_kn_graph_def gaussian_kn_graph_def n_neighbors_floor [symmetric]
        split: prod.splits)

section \<open>One trial\<close>

lemma trial_unrecognized:
  assumes "m \<noteq> ''ase''" "m \<noteq> ''lse''" "m \<noteq> ''sklearn''" "Xhat l = None"
  shows "trial lib cluster g m l w = (Inl (UnboundLocalError ''Xhat''), w)"
  using assms
  by (simp add: trial_def choose_embedding_def concatenate_embedding_def cluster_and_score_def)

text \<open>
  Claim C1 says that a method outside "ase", "lse" and "sklearn" makes the runner raise
  an explicit unsupported-method error. On the method "pca" with one trial, both
  variants assign no coordinate matrix and stop with the unbound-variable error of
  \<^verbatim>\<open>Xhat\<close>, raised where the clustering call reads it, the world as it was.
\<close>

theorem calc_ari_unrecognized_method:
  "calc_ari lib 1 ''pca'' cov_type w = (Inl (UnboundLocalError ''Xhat''), w)
   \<and> calc_ari_regen lib n_verts 1 ''pca'' w = (Inl (UnboundLocalError ''Xhat''), w)"
  by (simp add: calc_ari_def calc_ari_regen_def return_results_def tqdm_def entry_locals_def
        trial_unrecognized)

lemma length_concatenate_axis1:
  "length X = length Y \<Longrightarrow> length (concatenate_axis1 X Y) = length X"
  by (simp add: concatenate_axis1_def)

lemma nth_concatenate_axis1:
  "i < length X \<Longrightarrow> i < length Y \<Longrightarrow> concatenate_axis1 X Y ! i = X ! i @ Y ! i"
  by (simp add: concatenate_axis1_def)

lemma trial_ase:
  assumes "AdjacencySpectralEmbed lib 2 g w = (Tuple2 X Y, w1)"
  shows "trial lib cluster g ''ase'' l w =
     (case cluster (Mat (concatenate_axis1 X Y)) w1 of (labels_mclust, w2) \<Rightarrow>
      case adjusted_rand_score lib (labels_true w2) labels_mclust w2 of (score, w3) \<Rightarrow>
        (Inr (l\<lparr>rows := rows l @ [\<lparr>test = ''ase'', ari = score\<rparr>],
                Xhat := Some (Mat (concatenate_axis1 X Y)), Yhat := Some (Mat Y)\<rparr>),
         w3))"
  using assms
  by (simp add: trial_def choose_embedding_def concatenate_embedding_def
        cluster_and_score_def split: prod.splits)

lemma trial_lse:
  assumes "LaplacianSpectralEmbed lib 2 g w = (Tuple2 X Y, w1)"
  shows "trial lib cluster g ''lse'' l w =
     (case cluster (Mat (concatenate_axis1 X Y)) w1 of (labels_mclust, w2) \<Rightarrow>
      case adjusted_rand_score lib (labels_true w2) labels_mclust w2 of (score, w3) \<Rightarrow>
        (Inr (l\<lparr>rows := rows l @ [\<lparr>test = ''lse'', ari = score\<rparr>],
                Xhat := Some (Mat (concatenate_axis1 X Y)), Yhat := Some (Mat Y)\<rparr>),
         w3))"
  using assms
  by (simp add: trial_def choose_embedding_def concatenate_embedding_def
        cluster_and_score_def split: prod.splits)

lemma trial_sklearn:
  assumes "spectral_embedding lib g 2 w = (X, w1)"
  shows "trial lib cluster g ''sklearn'' l w =
     (case cluster (Mat X) w1 of (labels_mclust, w2) \<Rightarrow>
      case adjusted_rand_score lib (labels_true w2) labels_mclust w2 of (score, w3) \<Rightarrow>
        (Inr (l\<lparr>rows := rows l @ [\<lparr>test = ''sklearn'', ari = score\<rparr>],
                Xhat := Some (Mat X)\<rparr>),
         w3))"
  using assms
  by (simp add: trial_def choose_embedding_def concatenate_embedding_def
        cluster_and_score_def split: prod.splits)

text \<open>
  Claim C4. In a trial with method "ase" or "lse" the two matrices \<open>X\<close> and \<open>Y\<close> that
  the embedder returns are concatenated side by side and the concatenation is what the
  mixture model clusters; with method "sklearn" the single matrix returned is clustered
  as it is. In each case the record appended holds the score of that clustering. Side by
  side means: the concatenation of two matrices with the same number of rows has that
  number of rows, and its row \<open>i\<close> is row \<open>i\<close> of \<open>X\<close> followed by row \<open>i\<close> of \<open>Y\<close>.
\<close>

theorem trial_concatenates_pairs:
  "(AdjacencySpectralEmbed lib 2 g w = (Tuple2 X Y, w1) \<longrightarrow>
      trial lib cluster g ''ase'' l w =
        (case cluster (Mat (concatenate_axis1 X Y)) w1 of (labels_mclust, w2) \<Rightarrow>
         case adjusted_rand_score lib (labels_true w2) labels_mclust w2 of (score, w3) \<Rightarrow>
           (Inr (l\<lparr>rows := rows l @ [\<lparr>test = ''ase'', ari = score\<rparr>],
                   Xhat := Some (Mat (concatenate_axis1 X Y)), Yhat := Some (Mat Y)\<rparr>),
            w3)))
   \<and> (LaplacianSpectralEmbed lib 2 g w = (Tuple2 X Y, w1) \<longrightarrow>
      trial lib cluster g ''lse'' l w =
        (case cluster (Mat (concatenate_axis1 X Y)) w1 of (labels_mclust, w2) \<Rightarrow>
         case adjusted_rand_score lib (labels_true w2) labels_mclust w2 of (score, w3) \<Rightarrow>
           (Inr (l\<lparr>rows := rows l @ [\<lparr>test = ''lse'', ari = score\<rparr>],
                   Xhat := Some (Mat (concatenate_axis1 X Y)), Yhat := Some (Mat Y)\<rparr>),
            w3)))
   \<and> (spectral_embedding lib g 2 w = (Z, w1) \<longrightarrow>
      trial lib cluster g ''sklearn'' l w =
        (case cluster (Mat Z) w1 of (labels_mclust, w2) \<Rightarrow>
         case adjusted_rand_score lib (labels_true w2) labels_mclust w2 of (score, w3) \<Rightarrow>
           (Inr (l\<lparr>rows := rows l @ [\<lparr>test = ''sklearn'', ari = score\<rparr>],
                   Xhat := Some (Mat Z)\<rparr>),
            w3)))
   \<and> (length X = length Y \<longrightarrow>
        length (concatenate_axis1 X Y) = length X
      \<and> (\<forall>i<length X. concatenate_axis1 X Y ! i = X ! i @ Y ! i))"
  by (simp add: trial_ase trial_lse trial_sklearn length_concatenate_axis1
        nth_concatenate_axis1)

lemma transpose_stub_graph:
  "transpose [[0, 1, 0], [1, 0, 0], [0, 1, 0::real]] = [[0, 1, 0], [1, 0, 1], [0, 0, 0]]"
  by code_simp

lemma transpose_triangle:
  "transpose [[0, 1, 1], [1, 0, 1], [1, 1, 0::real]] = [[0, 1, 1], [1, 0, 1], [1, 1, 0]]"
  by code_simp

lemma stub_embed_graph:
  "stub_embed 2 [[0, 1, 0], [1, 0, 0], [0, 1, 0]] = [[0, 1], [1, 0], [0, 1]]"
  by (simp add: stub_embed_def)

lemma stub_ase_directed:
  "AdjacencySpectralEmbed stub_library 2 (kn_graph stub_world) (stub_world\<lparr>rng := r\<rparr>) =
     (Tuple2 [[0, 1], [1, 0], [0, 1]] [[0, 1], [1, 0], [0, 1]], stub_world\<lparr>rng := r + 1\<rparr>)"
  by (simp add: stub_library_def stub_fit_transform_def stub_world_def transpose_stub_graph
        stub_embed_graph)


text \<open>
  On the directed graph of the stand-in world: the adjacency embedder returns a pair of
  three-row matrices, and the trial clusters their three rows of four entries.
\<close>

theorem trial_concatenates_pairs_witness:
  "AdjacencySpectralEmbed stub_library 2 (kn_graph stub_world) stub_world =
     (Tuple2 [[0, 1], [1, 0], [0, 1]] [[0, 1], [1, 0], [0, 1]], stub_world\<lparr>rng := 1\<rparr>)
   \<and> trial stub_library (GaussianMixture stub_library 2 ''full'') (kn_graph stub_world) ''ase''
         entry_locals stub_world =
       (Inr \<lparr>rows = [\<lparr>test = ''ase'', ari = 0\<rparr>],
             Xhat = Some (Mat [[0, 1, 0, 1], [1, 0, 1, 0], [0, 1, 0, 1]]),
             Yhat = Some (Mat [[0, 1], [1, 0], [0, 1]])\<rparr>,
        stub_world\<lparr>rng := 3\<rparr>)
   \<and> concatenate_axis1 [[0, 1], [1, 0], [0, 1]] [[0, 1], [1, 0], [0, 1::real]] ! 1 = [1, 0, 1, 0]"
proof -
  have e: "AdjacencySpectralEmbed stub_library 2 (kn_graph stub_world) stub_world =
     (Tuple2 [[0, 1], [1, 0], [0, 1]] [[0, 1], [1, 0], [0, 1]], stub_world\<lparr>rng := 1\<rparr>)"
    using stub_ase_directed [of 0] by (simp add: stub_world_def)
  have len: "length [[0, 1], [1, 0], [0, 1::real]] = length [[0, 1], [1, 0], [0, 1::real]]"
    by simp
  note t = trial_concatenates_pairs [where lib = stub_library and g = "kn_graph stub_world"
      and w = stub_world and X = "[[0, 1], [1, 0], [0, 1]]" and Y = "[[0, 1], [1, 0], [0, 1]]"
      and ?w1.0 = "stub_world\<lparr>rng := 1\<rparr>" and cluster = "GaussianMixture stub_library 2 ''full''"
      and l = entry_locals]
  have a: "trial stub_library (GaussianMixture stub_library 2 ''full'') (kn_graph stub_world) ''ase''
         entry_locals stub_world =
       (Inr \<lparr>rows = [\<lparr>test = ''ase'', ari = 0\<rparr>],
             Xhat = Some (Mat [[0, 1, 0, 1], [1, 0, 1, 0], [0, 1, 0, 1]]),
             Yhat = Some (Mat [[0, 1], [1, 0], [0, 1]])\<rparr>,
        stub_world\<lparr>rng := 3\<rparr>)"
    using t [THEN conjunct1, rule_format, OF e]
    by (simp add: stub_library_def stub_fit_predict_def stub_label_def stub_world_def
          concatenate_axis1_def entry_locals_def)
  have b: "concatenate_axis1 [[0, 1], [1, 0], [0, 1]] [[0, 1], [1, 0], [0, 1::real]] ! 1
            = [1, 0, 1, 0]"
    using t [THEN conjunct2, THEN conjunct2, THEN conjunct2, rule_format, OF len,
        THEN conjunct2, rule_format, of 1]
    by simp
  show ?thesis using e a b by simp
qed

section \<open>The width of the clustered matrix\<close>

text \<open>
  Claim C10. When the embedder returns the two-column matrices it is asked for (a pair
  \<open>X\<close>, \<open>Y\<close> with the same number of rows for "ase" and "lse", a single matrix \<open>Z\<close>
  for "sklearn"), the coordinate matrix \<open>C\<close> that the trial hands to the mixture model
  has one row per row of the embedding, and every row has four entries for "ase" and
  "lse" (the row of \<open>X\<close> followed by the row of \<open>Y\<close>) and two entries for "sklearn".
\<close>

theorem coordinate_matrix_columns:
  assumes "length X = length Y"
    and "\<forall>row\<in>set X. length row = 2" and "\<forall>row\<in>set Y. length row = 2"
    and "\<forall>row\<in>set Z. length row = 2"
  shows "(AdjacencySpectralEmbed lib 2 g w = (Tuple2 X Y, w1) \<longrightarrow>
            (\<exists>C. trial lib cluster g ''ase'' l w =
                   (case cluster (Mat C) w1 of (labels_mclust, w2) \<Rightarrow>
                    case adjusted_rand_score lib (labels_true w2) labels_mclust w2 of
                      (score, w3) \<Rightarrow>
                        (Inr (l\<lparr>rows := rows l @ [\<lparr>test = ''ase'', ari = score\<rparr>],
                                Xhat := Some (Mat C), Yhat := Some (Mat Y)\<rparr>),
                         w3))
                 \<and> length C = length X
                 \<and> (\<forall>i<length C. C ! i = X ! i @ Y ! i \<and> length (C ! i) = 4)))
       \<and> (LaplacianSpectralEmbed lib 2 g w = (Tuple2 X Y, w1) \<longrightarrow>
            (\<exists>C. trial lib cluster g ''lse'' l w =
                   (case cluster (Mat C) w1 of (labels_mclust, w2) \<Rightarrow>
                    case adjusted_rand_score lib (labels_true w2) labels_mclust w2 of
                      (score, w3) \<Rightarrow>
                        (Inr (l\<lparr>rows := rows l @ [\<lparr>test = ''lse'', ari = score\<rparr>],
                                Xhat := Some (Mat C), Yhat := Some (Mat Y)\<rparr>),
                         w3))
                 \<and> length C = length X
                 \<and> (\<forall>i<length C. C ! i = X ! i @ Y ! i \<and> length (C ! i) = 4)))
       \<and> (spectral_embedding lib g 2 w = (Z, w1) \<longrightarrow>
            (\<exists>C. trial lib cluster g ''sklearn'' l w =
                   (case cluster (Mat C) w1 of (labels_mclust, w2) \<Rightarrow>
                    case adjusted_rand_score lib (labels_true w2) labels_mclust w2 of
                      (score, w3) \<Rightarrow>
                        (Inr (l\<lparr>rows := rows l @ [\<lparr>test = ''sklearn'', ari = score\<rparr>],
                                Xhat := Some (Mat C)\<rparr>),
                         w3))
                 \<and> length C = length Z
                 \<and> (\<forall>i<length C. C ! i = Z ! i \<and> length (C ! i) = 2)))"
proof -
  let ?C = "concatenate_axis1 X Y"
  have len: "length ?C = length X" using assms(1) by (rule length_concatenate_axis1)
  have rows: "\<forall>i<length ?C. ?C ! i = X ! i @ Y ! i \<and> length (?C ! i) = 4"
  proof (intro allI impI)
    fix i assume "i < length ?C"
    then have i: "i < length X" "i < length Y" using len assms(1) by simp_all
    then have "X ! i \<in> set X" "Y ! i \<in> set Y" by simp_all
    then have "length (X ! i) = 2" "length (Y ! i) = 2" using assms(2,3) by blast+
    then show "?C ! i = X ! i @ Y ! i \<and> length (?C ! i) = 4"
      using i by (simp add: nth_concatenate_axis1)
  qed
  have z: "\<forall>i<length Z. Z ! i = Z ! i \<and> length (Z ! i) = 2"
    using assms(4) by simp
  show ?thesis
  proof (intro conjI impI)
    assume "AdjacencySpectralEmbed lib 2 g w = (Tuple2 X Y, w1)"
    then show "\<exists>C. trial lib cluster g ''ase'' l w =
                   (case cluster (Mat C) w1 of (labels_mclust, w2) \<Rightarrow>
                    case adjusted_rand_score lib (labels_true w2) labels_mclust w2 of
                      (score, w3) \<Rightarrow>
                        (Inr (l\<lparr>rows := rows l @ [\<lparr>test = ''ase'', ari = score\<rparr>],
                                Xhat := Some (Mat C), Yhat := Some (Mat Y)\<rparr>),
                         w3))
                 \<and> length C = length X
                 \<and> (\<forall>i<length C. C ! i = X ! i @ Y ! i \<and> length (C ! i) = 4)"
      using trial_ase [of lib g w X Y w1 cluster l] len rows by blast
  next
    assume "LaplacianSpectralEmbed lib 2 g w = (Tuple2 X Y, w1)"
    then show "\<exists>C. trial lib cluster g ''lse'' l w =
                   (case cluster (Mat C) w1 of (labels_mclust, w2) \<Rightarrow>
                    case adjusted_rand_score lib (labels_true w2) labels_mclust w2 of
                      (score, w3) \<Rightarrow>
                        (Inr (l\<lparr>rows := rows l @ [\<lparr>test = ''lse'', ari = score\<rparr>],
                                Xhat := Some (Mat C), Yhat := Some (Mat Y)\<rparr>),
                         w3))
                 \<and> length C = length X
                 \<and> (\<forall>i<length C. C ! i = X ! i @ Y ! i \<and> length (C ! i) = 4)"
      using trial_lse [of lib g w X Y w1 cluster l] len rows by blast
  next
    assume "spectral_embedding lib g 2 w = (Z, w1)"
    then show "\<exists>C. trial lib cluster g ''sklearn'' l w =
                   (case cluster (Mat C) w1 of (labels_mclust, w2) \<Rightarrow>
                    case adjusted_rand_score lib (labels_true w2) labels_mclust w2 of
                      (score, w3) \<Rightarrow>
                        (Inr (l\<lparr>rows := rows l @ [\<lparr>test = ''sklearn'', ari = score\<rparr>],
                                Xhat := Some (Mat C)\<rparr>),
                         w3))
                 \<and> length C = length Z
                 \<and> (\<forall>i<length C. C ! i = Z ! i \<and> length (C ! i) = 2)"
      using trial_sklearn [of lib g w Z w1 cluster l] z by blast
  qed
qed

text \<open>
  On the directed graph of the stand-in world with method "lse": the two embeddings have
  three rows of two entries, and the matrix clustered has three rows of four entries.
\<close>

theorem coordinate_matrix_columns_witness:
  "length [[0, 1], [1, 0], [0, 1::real]] = length [[0, 1], [1, 0], [0, 1::real]]
   \<and> list_all (\<lambda>row. length row = 2) [[0, 1], [1, 0], [0, 1::real]]
   \<and> LaplacianSpectralEmbed stub_library 2 (kn_graph stub_world) stub_world =
       (Tuple2 [[0, 1], [1, 0], [0, 1]] [[0, 1], [1, 0], [0, 1]], stub_world\<lparr>rng := 1\<rparr>)
   \<and> (\<exists>C. Xhat (projr (fst (trial stub_library (GaussianMixture stub_library 2 ''full'')
                                 (kn_graph stub_world) ''lse'' entry_locals stub_world)))
             = Some (Mat C)
          \<and> length C = 3
          \<and> length (C ! 0) = 4 \<and> length (C ! 1) = 4 \<and> length (C ! 2) = 4)"
proof -
  let ?E = "[[0, 1], [1, 0], [0, 1::real]]"
  have h1: "length ?E = length ?E" by simp
  have h2: "\<forall>row\<in>set ?E. length row = 2" by simp
  have e: "LaplacianSpectralEmbed stub_library 2 (kn_graph stub_world) stub_world =
       (Tuple2 ?E ?E, stub_world\<lparr>rng := 1\<rparr>)"
    by (simp add: stub_library_def stub_fit_transform_def stub_world_def transpose_stub_graph
        stub_embed_graph)
  obtain C where
    t: "trial stub_library (GaussianMixture stub_library 2 ''full'') (kn_graph stub_world) ''lse''
          entry_locals stub_world =
         (case GaussianMixture stub_library 2 ''full'' (Mat C) (stub_world\<lparr>rng := 1\<rparr>) of
            (labels_mclust, w2) \<Rightarrow>
              case adjusted_rand_score stub_library (labels_true w2) labels_mclust w2 of
                (score, w3) \<Rightarrow>
                  (Inr (entry_locals\<lparr>rows := rows entry_locals @ [\<lparr>test = ''lse'', ari = score\<rparr>],
                          Xhat := Some (Mat C), Yhat := Some (Mat ?E)\<rparr>),
                   w3))"
    and c: "length C = length ?E" "\<forall>i<length C. C ! i = ?E ! i @ ?E ! i \<and> length (C ! i) = 4"
    using coordinate_matrix_columns [OF h1 h2 h2 h2, where lib = stub_library
        and g = "kn_graph stub_world" and w = stub_world and ?w1.0 = "stub_world\<lparr>rng := 1\<rparr>"
        and cluster = "GaussianMixture stub_library 2 ''full''" and l = entry_locals,
        THEN conjunct2, THEN conjunct1, rule_format, OF e]
    by blast
  have x: "Xhat (projr (fst (trial stub_library (GaussianMixture stub_library 2 ''full'')
                                 (kn_graph stub_world) ''lse'' entry_locals stub_world)))
          = Some (Mat C)"
    unfolding t by (simp split: prod.splits)
  have n: "length C = 3" using c(1) by simp
  then have "length (C ! 0) = 4" "length (C ! 1) = 4" "length (C ! 2) = 4"
    using c(2) by simp_all
  then show ?thesis using h1 e x n by auto
qed

section \<open>The collection of trial records\<close>

lemma trial_refines_spec_trial:
  assumes "m = ''ase'' \<or> m = ''lse'' \<or> m = ''sklearn''"
  shows "case spec_trial lib cluster g m w of
           (Some record, w1) \<Rightarrow>
             (\<exists>l'. trial lib cluster g m l w = (Inr l', w1) \<and> rows l' = rows l @ [record])
         | (None, w1) \<Rightarrow> (\<exists>e. trial lib cluster g m l w = (Inl e, w1))"
  using assms
  by (auto simp: spec_trial_def spec_embed_def trial_def choose_embedding_def
        concatenate_embedding_def cluster_and_score_def
        split: prod.splits embedding.splits list.splits option.splits)

lemma for_range_refines_spec:
  assumes step: "\<And>l w. case spec_trial lib cluster (G w) m w of
           (Some record, w1) \<Rightarrow>
             (\<exists>l'. body l w = (Inr l', tick w1) \<and> rows l' = rows l @ [record])
         | (None, w1) \<Rightarrow> (\<exists>e. body l w = (Inl e, w1))"
  shows "case spec_trial_records lib cluster G tick m n w of
           (Some records, w') \<Rightarrow>
             (\<exists>l'. for_range n body l w = (Inr l', w') \<and> rows l' = rows l @ records)
         | (None, w') \<Rightarrow> (\<exists>e. for_range n body l w = (Inl e, w'))"
proof (induction n arbitrary: l w)
  case 0
  show ?case by simp
next
  case (Suc n)
  obtain o1 w1 where s: "spec_trial lib cluster (G w) m w = (o1, w1)"
    by (cases "spec_trial lib cluster (G w) m w")
  show ?case
  proof (cases o1)
    case None
    then obtain e where "body l w = (Inl e, w1)" using step [of l w] s by auto
    then show ?thesis using s None by simp
  next
    case (Some rcd)
    then obtain l1 where b: "body l w = (Inr l1, tick w1)" and r: "rows l1 = rows l @ [rcd]"
      using step [of l w] s by auto
    obtain o2 w2 where t: "spec_trial_records lib cluster G tick m n (tick w1) = (o2, w2)"
      by (cases "spec_trial_records lib cluster G tick m n (tick w1)")
    show ?thesis
    proof (cases o2)
      case None
      then obtain e where "for_range n body l1 (tick w1) = (Inl e, w2)"
        using Suc.IH [of l1 "tick w1"] t by auto
      then show ?thesis using s Some t None b by simp
    next
      case (Some rest)
      then obtain l2 where "for_range n body l1 (tick w1) = (Inr l2, w2)"
        and "rows l2 = rows l1 @ rest"
        using Suc.IH [of l1 "tick w1"] t by auto
      then show ?thesis using s \<open>o1 = Some rcd\<close> t Some b r by simp
    qed
  qed
qed

lemma spec_trial_records_length:
  "spec_trial_records lib cluster G tick m n w = (Some records, w') \<Longrightarrow> length records = n"
proof (induction n arbitrary: w records)
  case 0
  then show ?case by simp
next
  case (Suc n)
  then show ?case
    by (auto split: prod.splits option.splits)
qed

lemma spec_trial_test: "spec_trial lib cluster g m w = (Some record, w1) \<Longrightarrow> test record = m"
  by (auto simp: spec_trial_def split: prod.splits option.splits)

lemma spec_trial_records_test:
  "spec_trial_records lib cluster G tick m n w = (Some records, w')
     \<Longrightarrow> list_all (\<lambda>record. test record = m) records"
proof (induction n arbitrary: w records)
  case 0
  then show ?case by simp
next
  case (Suc n)
  then show ?case
    by (auto split: prod.splits option.splits dest: spec_trial_test)
qed

lemma calc_ari_refines_spec:
  assumes m: "m = ''ase'' \<or> m = ''lse'' \<or> m = ''sklearn''"
  shows "case spec_trial_records lib (GaussianMixture lib 2 cov_type) kn_graph (\<lambda>w. w) m n w of
           (Some records, w') \<Rightarrow> calc_ari lib n m cov_type w = (Inr records, w')
         | (None, w') \<Rightarrow> (\<exists>e. calc_ari lib n m cov_type w = (Inl e, w'))"
proof -
  let ?body = "\<lambda>l w. trial lib (GaussianMixture lib 2 cov_type) (kn_graph w) m l w"
  have "case spec_trial_records lib (GaussianMixture lib 2 cov_type) kn_graph (\<lambda>w. w) m n w of
           (Some records, w') \<Rightarrow>
             (\<exists>l'. for_range n ?body entry_locals w = (Inr l', w')
                  \<and> rows l' = rows entry_locals @ records)
         | (None, w') \<Rightarrow> (\<exists>e. for_range n ?body entry_locals w = (Inl e, w'))"
    by (rule for_range_refines_spec) (rule trial_refines_spec_trial [OF m])
  then show ?thesis
    by (auto simp: calc_ari_def return_results_def entry_locals_def
          split: prod.splits option.splits)
qed

lemma tqdm_refines_spec_trial:
  assumes "m = ''ase'' \<or> m = ''lse'' \<or> m = ''sklearn''"
  shows "case spec_trial lib cluster (G w) m w of
           (Some record, w1) \<Rightarrow>
             (\<exists>l'. tqdm (\<lambda>l w. trial lib cluster (G w) m l w) l w = (Inr l', progress_tick w1)
                  \<and> rows l' = rows l @ [record])
         | (None, w1) \<Rightarrow> (\<exists>e. tqdm (\<lambda>l w. trial lib cluster (G w) m l w) l w = (Inl e, w1))"
  using trial_refines_spec_trial [OF assms, where lib = lib and cluster = cluster
      and g = "G w" and w = w and l = l]
  by (auto simp: tqdm_def progress_tick_def split: prod.splits option.splits)

lemma calc_ari_regen_refines_spec:
  assumes m: "m = ''ase'' \<or> m = ''lse'' \<or> m = ''sklearn''"
  shows "case spec_trial_records lib (GaussianMixtureIC lib 2 2 ''all'')
                (\<lambda>w. block_kn_graph lib n_verts (B_arg w)) progress_tick m n w of
           (Some records, w') \<Rightarrow> calc_ari_regen lib n_verts n m w = (Inr records, w')
         | (None, w') \<Rightarrow> (\<exists>e. calc_ari_regen lib n_verts n m w = (Inl e, w'))"
proof -
  let ?body = "tqdm (\<lambda>l w. trial lib (GaussianMixtureIC lib 2 2 ''all'')
                          (block_kn_graph lib n_verts (B_arg w)) m l w)"
  have "case spec_trial_records lib (GaussianMixtureIC lib 2 2 ''all'')
                (\<lambda>w. block_kn_graph lib n_verts (B_arg w)) progress_tick m n w of
           (Some records, w') \<Rightarrow>
             (\<exists>l'. for_range n ?body entry_locals w = (Inr l', w')
                  \<and> rows l' = rows entry_locals @ records)
         | (None, w') \<Rightarrow> (\<exists>e. for_range n ?body entry_locals w = (Inl e, w'))"
    by (rule for_range_refines_spec) (rule tqdm_refines_spec_trial [OF m])
  then show ?thesis
    by (auto simp: calc_ari_regen_def return_results_def entry_locals_def
          split: prod.splits option.splits)
qed

text \<open>
  Claim C5, amended. For a recognised method and \<open>N\<close> trials in which every embedder
  call returns what the specification's contract says (a pair for "ase" and "lse", as
  on a directed graph), both variants of the runner return the ordered collection of the
  \<open>N\<close> trial records the specification describes: first trial first, each record
  holding the method name and the score computed in its trial. When a call of the "ase"
  or "lse" embedder returns a single array, the runner raises instead.
\<close>

theorem calc_ari_trial_records:
  assumes "m = ''ase'' \<or> m = ''lse'' \<or> m = ''sklearn''"
  shows "(spec_trial_records lib (GaussianMixture lib 2 cov_type) kn_graph (\<lambda>w. w) m N w
            = (Some records, w') \<longrightarrow>
          calc_ari lib N m cov_type w = (Inr records, w')
          \<and> length records = N \<and> list_all (\<lambda>record. test record = m) records)
       \<and> (spec_trial_records lib (GaussianMixtureIC lib 2 2 ''all'')
              (\<lambda>w. block_kn_graph lib n_verts (B_arg w)) progress_tick m N w
            = (Some records, w') \<longrightarrow>
          calc_ari_regen lib n_verts N m w = (Inr records, w')
          \<and> length records = N \<and> list_all (\<lambda>record. test record = m) records)
       \<and> (spec_trial_records lib (GaussianMixture lib 2 cov_type) kn_graph (\<lambda>w. w) m N w
            = (None, w') \<longrightarrow>
          (\<exists>e. calc_ari lib N m cov_type w = (Inl e, w')))
       \<and> (spec_trial_records lib (GaussianMixtureIC lib 2 2 ''all'')
              (\<lambda>w. block_kn_graph lib n_verts (B_arg w)) progress_tick m N w
            = (None, w') \<longrightarrow>
          (\<exists>e. calc_ari_regen lib n_verts N m w = (Inl e, w')))"
  using calc_ari_refines_spec [OF assms, where lib = lib and cov_type = cov_type
      and n = N and w = w]
    calc_ari_regen_refines_spec [OF assms, where lib = lib and n_verts = n_verts
      and n = N and w = w]
    spec_trial_records_length spec_trial_records_test
  by (auto split: prod.splits option.splits)

lemma stub_spec_trial_ase:
  "spec_trial stub_library (GaussianMixture stub_library 2 ''full'') (kn_graph stub_world) ''ase''
     (stub_world\<lparr>rng := r\<rparr>) =
   (Some \<lparr>test = ''ase'', ari = (if even r then 0 else 1)\<rparr>, stub_world\<lparr>rng := r + 3\<rparr>)"
proof -
  have p: "(Suc 0 = r mod 2) = odd r"
    by presburger
  show ?thesis
    by (simp add: spec_trial_def spec_embed_def stub_ase_directed)
       (simp add: stub_library_def stub_fit_predict_def stub_label_def stub_world_def
          concatenate_axis1_def p)
qed

theorem calc_ari_trial_records_witness:
  "(''ase'' = ''ase'' \<or> ''ase'' = ''lse'' \<or> ''ase'' = ''sklearn'')
   \<and> spec_trial_records stub_library (GaussianMixture stub_library 2 ''full'') kn_graph (\<lambda>w. w)
        ''ase'' (Suc (Suc 0)) stub_world =
       (Some [\<lparr>test = ''ase'', ari = 0\<rparr>, \<lparr>test = ''ase'', ari = 1\<rparr>], stub_world\<lparr>rng := 6\<rparr>)
   \<and> calc_ari stub_library (Suc (Suc 0)) ''ase'' ''full'' stub_world =
       (Inr [\<lparr>test = ''ase'', ari = 0\<rparr>, \<lparr>test = ''ase'', ari = 1\<rparr>], stub_world\<lparr>rng := 6\<rparr>)"
proof -
  have k: "\<And>r. kn_graph (stub_world\<lparr>rng := r\<rparr>) = kn_graph stub_world" by simp
  have s: "spec_trial_records stub_library (GaussianMixture stub_library 2 ''full'') kn_graph
             (\<lambda>w. w) ''ase'' (Suc (Suc 0)) stub_world =
       (Some [\<lparr>test = ''ase'', ari = 0\<rparr>, \<lparr>test = ''ase'', ari = 1\<rparr>], stub_world\<lparr>rng := 6\<rparr>)"
    using stub_spec_trial_ase [of 0] stub_spec_trial_ase [of 3]
    by (simp add: k) (simp add: stub_world_def)
  have h: "''ase'' = ''ase'' \<or> ''ase'' = ''lse'' \<or> ''ase'' = ''sklearn''" by simp
  show ?thesis
    using calc_ari_trial_records [OF h, where lib = stub_library and cov_type = "''full''"
        and N = "Suc (Suc 0)" and w = stub_world, THEN conjunct1, rule_format, OF s] s
    by simp
qed

text \<open>
  Claim C5 says that the runner returns \<open>N\<close> records for every recognised method. On
  the symmetric triangle the adjacency embedder returns a single array of three rows, and
  the assignment \<^verbatim>\<open>Xhat, Yhat = ase.fit_transform(kn_graph)\<close> of the first trial raises
  \<^verbatim>\<open>ValueError\<close>: no record is returned.
\<close>

theorem calc_ari_symmetric_graph_counterexample:
  "calc_ari stub_library 1 ''ase'' ''full'' symmetric_world =
     (Inl (ValueError ''unpack''), symmetric_world\<lparr>rng := 1\<rparr>)"
  by (simp add: calc_ari_def return_results_def entry_locals_def trial_def choose_embedding_def
        stub_library_def stub_fit_transform_def symmetric_world_def transpose_triangle
        stub_embed_def)


section \<open>What a call leaves behind\<close>

lemma keeps_worldD:
  assumes "keeps_world f" "f w = (x, w')"
  shows "kn_graph w' = kn_graph w \<and> labels_true w' = labels_true w
         \<and> B_arg w' = B_arg w \<and> progress w' = progress w"
proof -
  have "snd (f w) = w\<lparr>rng := rng (snd (f w))\<rparr>"
    using assms(1) by (simp add: keeps_world_def)
  then have "w' = w\<lparr>rng := rng w'\<rparr>" using assms(2) by simp
  then have "kn_graph w' = kn_graph (w\<lparr>rng := rng w'\<rparr>)"
    "labels_true w' = labels_true (w\<lparr>rng := rng w'\<rparr>)"
    "B_arg w' = B_arg (w\<lparr>rng := rng w'\<rparr>)"
    "progress w' = progress (w\<lparr>rng := rng w'\<rparr>)"
    by simp_all
  then show ?thesis by simp
qed

lemma choose_embedding_frame:
  assumes "library_keeps_world lib" "choose_embedding lib g m l w = (res, w')"
  shows "kn_graph w' = kn_graph w \<and> labels_true w' = labels_true w
         \<and> B_arg w' = B_arg w \<and> progress w' = progress w"
proof -
  have a: "keeps_world (AdjacencySpectralEmbed lib 2 g)"
    and b: "keeps_world (LaplacianSpectralEmbed lib 2 g)"
    and c: "keeps_world (spectral_embedding lib g 2)"
    using assms(1) by (simp_all add: library_keeps_world_def)
  consider "m = ''ase''" | "m \<noteq> ''ase''" "m = ''lse''"
    | "m \<noteq> ''ase''" "m \<noteq> ''lse''" "m = ''sklearn''"
    | "m \<noteq> ''ase''" "m \<noteq> ''lse''" "m \<noteq> ''sklearn''"
    by blast
  then show ?thesis
  proof cases
    case 1
    obtain v w1 where e: "AdjacencySpectralEmbed lib 2 g w = (v, w1)"
      by (cases "AdjacencySpectralEmbed lib 2 g w")
    have "w' = w1"
      using assms(2) 1 e by (simp add: choose_embedding_def split: sum.splits prod.splits)
    then show ?thesis using keeps_worldD [OF a e] by simp
  next
    case 2
    obtain v w1 where e: "LaplacianSpectralEmbed lib 2 g w = (v, w1)"
      by (cases "LaplacianSpectralEmbed lib 2 g w")
    have "w' = w1"
      using assms(2) 2 e by (simp add: choose_embedding_def split: sum.splits prod.splits)
    then show ?thesis using keeps_worldD [OF b e] by simp
  next
    case 3
    obtain v w1 where e: "spectral_embedding lib g 2 w = (v, w1)"
      by (cases "spectral_embedding lib g 2 w")
    have "w' = w1"
      using assms(2) 3 e by (simp add: choose_embedding_def)
    then show ?thesis using keeps_worldD [OF c e] by simp
  next
    case 4
    then show ?thesis using assms(2) by (simp add: choose_embedding_def)
  qed
qed

lemma cluster_and_score_frame:
  assumes "library_keeps_world lib" "\<And>a. keeps_world (cluster a)"
    and "cluster_and_score lib cluster m l w = (res, w')"
  shows "kn_graph w' = kn_graph w \<and> labels_true w' = labels_true w
         \<and> B_arg w' = B_arg w \<and> progress w' = progress w"
proof (cases "Xhat l")
  case None
  then show ?thesis using assms(3) by (simp add: cluster_and_score_def)
next
  case (Some a)
  obtain p w1 where c: "cluster a w = (p, w1)" by (cases "cluster a w")
  obtain s w2 where r: "adjusted_rand_score lib (labels_true w1) p w1 = (s, w2)"
    by (cases "adjusted_rand_score lib (labels_true w1) p w1")
  have k: "keeps_world (adjusted_rand_score lib (labels_true w1) p)"
    using assms(1) by (simp add: library_keeps_world_def)
  have "w' = w2" using assms(3) Some c r by (simp add: cluster_and_score_def)
  then show ?thesis
    using keeps_worldD [OF assms(2) c] keeps_worldD [OF k r] by simp
qed

lemma trial_frame:
  assumes "library_keeps_world lib" "\<And>a. keeps_world (cluster a)"
    and "trial lib cluster g m l w = (res, w')"
  shows "kn_graph w' = kn_graph w \<and> labels_true w' = labels_true w
         \<and> B_arg w' = B_arg w \<and> progress w' = progress w"
proof -
  obtain r1 w1 where e: "choose_embedding lib g m l w = (r1, w1)"
    by (cases "choose_embedding lib g m l w")
  note f1 = choose_embedding_frame [OF assms(1) e]
  show ?thesis
  proof (cases r1)
    case (Inl err)
    then show ?thesis using assms(3) e f1 by (simp add: trial_def)
  next
    case (Inr l1)
    show ?thesis
    proof (cases "concatenate_embedding m l1")
      case (Inl err)
      then show ?thesis using assms(3) e f1 \<open>r1 = Inr l1\<close> by (simp add: trial_def)
    next
      case (Inr l2)
      then have "cluster_and_score lib cluster m l2 w1 = (res, w')"
        using assms(3) e \<open>r1 = Inr l1\<close> by (simp add: trial_def)
      from cluster_and_score_frame [OF assms(1,2) this] f1 show ?thesis by simp
    qed
  qed
qed

lemma for_range_preserves:
  assumes "\<And>l w. f (snd (body l w)) = f w"
  shows "f (snd (for_range k body l w)) = f w"
proof (induction k arbitrary: l w)
  case 0
  show ?case by simp
next
  case (Suc k)
  obtain res w' where b: "body l w = (res, w')" by (cases "body l w")
  have w': "f w' = f w" using assms [of l w] b by simp
  show ?case
  proof (cases res)
    case (Inl e)
    then show ?thesis using b w' by simp
  next
    case (Inr l')
    then show ?thesis using b w' Suc.IH [of l' w'] by simp
  qed
qed

lemma snd_return_results: "snd (return_results out) = snd out"
  by (cases out) (simp add: return_results_def split: sum.splits)

lemma tqdm_frame:
  assumes "\<And>l w. kn_graph (snd (body l w)) = kn_graph w
                \<and> labels_true (snd (body l w)) = labels_true w
                \<and> B_arg (snd (body l w)) = B_arg w"
  shows "kn_graph (snd (tqdm body l w)) = kn_graph w
         \<and> labels_true (snd (tqdm body l w)) = labels_true w
         \<and> B_arg (snd (tqdm body l w)) = B_arg w"
proof (cases "body l w")
  case (Pair res w')
  then show ?thesis
    using assms [of l w] by (cases res) (simp_all add: tqdm_def)
qed

text \<open>
  Claim C8, amended. As long as the library routines it calls do not write to the
  objects they are handed, a call of the runner leaves the objects passed to it as they
  were: the graph array, the ground-truth label list and the block matrix are unchanged
  after the call in both variants, and the variant without a progress bar has written no
  progress output. Besides returning its collection the call advances the process-wide
  random generator, and the regenerating variant also advances the progress bar.
\<close>

theorem calc_ari_frame:
  assumes "library_keeps_world lib"
  shows "kn_graph (snd (calc_ari lib n_sims embed_method cov_type w)) = kn_graph w
   \<and> labels_true (snd (calc_ari lib n_sims embed_method cov_type w)) = labels_true w
   \<and> B_arg (snd (calc_ari lib n_sims embed_method cov_type w)) = B_arg w
   \<and> progress (snd (calc_ari lib n_sims embed_method cov_type w)) = progress w
   \<and> kn_graph (snd (calc_ari_regen lib n_verts n_sims embed_method w)) = kn_graph w
   \<and> labels_true (snd (calc_ari_regen lib n_verts n_sims embed_method w)) = labels_true w
   \<and> B_arg (snd (calc_ari_regen lib n_verts n_sims embed_method w)) = B_arg w"
proof -
  let ?A = "\<lambda>l w. trial lib (GaussianMixture lib 2 cov_type) (kn_graph w) embed_method l w"
  let ?T = "\<lambda>l w. trial lib (GaussianMixtureIC lib 2 2 ''all'')
                          (block_kn_graph lib n_verts (B_arg w)) embed_method l w"
  have g: "\<And>a. keeps_world (GaussianMixture lib 2 cov_type a)"
    and i: "\<And>a. keeps_world (GaussianMixtureIC lib 2 2 ''all'' a)"
    using assms by (simp_all add: library_keeps_world_def)
  have A: "\<And>l w. kn_graph (snd (?A l w)) = kn_graph w \<and> labels_true (snd (?A l w)) = labels_true w
         \<and> B_arg (snd (?A l w)) = B_arg w \<and> progress (snd (?A l w)) = progress w"
  proof -
    fix l w
    obtain res w' where t: "?A l w = (res, w')" by (cases "?A l w")
    show "kn_graph (snd (?A l w)) = kn_graph w \<and> labels_true (snd (?A l w)) = labels_true w
         \<and> B_arg (snd (?A l w)) = B_arg w \<and> progress (snd (?A l w)) = progress w"
      using trial_frame [OF assms g t] t by simp
  qed
  have T: "\<And>l w. kn_graph (snd (?T l w)) = kn_graph w \<and> labels_true (snd (?T l w)) = labels_true w
         \<and> B_arg (snd (?T l w)) = B_arg w"
  proof -
    fix l w
    obtain res w' where t: "?T l w = (res, w')" by (cases "?T l w")
    show "kn_graph (snd (?T l w)) = kn_graph w \<and> labels_true (snd (?T l w)) = labels_true w
         \<and> B_arg (snd (?T l w)) = B_arg w"
      using trial_frame [OF assms i t] t by simp
  qed
  have a1: "kn_graph (snd (for_range n_sims ?A entry_locals w)) = kn_graph w"
    by (rule for_range_preserves) (simp add: A)
  have a2: "labels_true (snd (for_range n_sims ?A entry_locals w)) = labels_true w"
    by (rule for_range_preserves) (simp add: A)
  have a3: "B_arg (snd (for_range n_sims ?A entry_locals w)) = B_arg w"
    by (rule for_range_preserves) (simp add: A)
  have a4: "progress (snd (for_range n_sims ?A entry_locals w)) = progress w"
    by (rule for_range_preserves) (simp add: A)
  have b1: "kn_graph (snd (for_range n_sims (tqdm ?T) entry_locals w)) = kn_graph w"
    by (rule for_range_preserves) (simp add: tqdm_frame [of ?T, OF T])
  have b2: "labels_true (snd (for_range n_sims (tqdm ?T) entry_locals w)) = labels_true w"
    by (rule for_range_preserves) (simp add: tqdm_frame [of ?T, OF T])
  have b3: "B_arg (snd (for_range n_sims (tqdm ?T) entry_locals w)) = B_arg w"
    by (rule for_range_preserves) (simp add: tqdm_frame [of ?T, OF T])
  show ?thesis
    using a1 a2 a3 a4 b1 b2 b3 by (simp add: calc_ari_def calc_ari_regen_def snd_return_results)
qed

lemma stub_library_keeps_world: "library_keeps_world stub_library"
  by (simp add: library_keeps_world_def keeps_world_def stub_library_def stub_fit_transform_def
        stub_fit_predict_def)

theorem calc_ari_frame_witness:
  "library_keeps_world stub_library
   \<and> kn_graph (snd (calc_ari stub_library 2 ''sklearn'' ''full'' stub_world))
       = [[0, 1, 0], [1, 0, 0], [0, 1, 0]]
   \<and> labels_true (snd (calc_ari_regen stub_library 4 2 ''sklearn'' stub_world)) = [0, 1, 0]"
  using calc_ari_frame [OF stub_library_keeps_world, of 2 "''sklearn''" "''full''" stub_world 4]
    stub_library_keeps_world
  by (simp add: stub_world_def)

text \<open>
  Claim C8 says that a call has no side effect other than producing its returned
  collection. The embedding and clustering calls draw from the process-wide random
  generator: after one trial the world is not the one the call started in.
\<close>

theorem calc_ari_generator_counterexample:
  "snd (calc_ari stub_library 1 ''sklearn'' ''full'' stub_world) \<noteq> stub_world"
proof -
  have "rng (snd (calc_ari stub_library 1 ''sklearn'' ''full'' stub_world)) = 3"
    by (simp add: calc_ari_def return_results_def entry_locals_def trial_def choose_embedding_def
        concatenate_embedding_def cluster_and_score_def
        stub_library_def stub_fit_predict_def stub_world_def)
  moreover have "rng stub_world = 0" by (simp add: stub_world_def)
  ultimately show ?thesis by auto
qed


text \<open>
  The frame is a property of the routines called and not of the runner alone: with an
  embedding routine that works in place on the graph it is handed, the caller's graph is
  changed by the call.
\<close>

lemma calc_ari_in_place_library:
  "kn_graph (snd (calc_ari in_place_library 1 ''sklearn'' ''full'' stub_world))
     = [[0, 0, 0], [0, 0, 0], [0, 0, 0]]"
  by (simp add: calc_ari_def return_results_def entry_locals_def trial_def choose_embedding_def
        concatenate_embedding_def cluster_and_score_def
        in_place_library_def stub_library_def stub_fit_predict_def stub_world_def)

end
